theory Spec2Isabelle
  imports Main
begin

section \<open>cush: the job-control core of custom-shell.c\<close>

text \<open>
  A shallow embedding of \<^verbatim>\<open>src/custom-shell.c\<close>. The shell is one C process; its state
  is a record \<open>shell\<close>, every function of the source is a HOL function that takes the state
  and returns the new one. What the operating system answers (the result of a spawn, of a
  wait, the content of memory the program never wrote) is an input of the model, kept in
  the record \<open>world\<close>. Everything the shell does to the outside (text printed, signals sent,
  terminal hand-overs) is appended to the \<open>trace\<close> of the state, in program order.
\<close>

subsection \<open>Data\<close>

type_synonym pid_t = int
type_synonym addr = nat
type_synonym termios = nat

text \<open>
  \<^verbatim>\<open>enum job_status\<close>, lines 63-70. The field of a job is an int of memory: besides the
  four enumerators it can hold any other value \<open>v\<close>, \<open>NO_ENUMERATOR v\<close>, as the field of a
  fresh record does until the executor writes it.
\<close>

datatype job_status = FOREGROUND | BACKGROUND | STOPPED | NEEDSTERMINAL | NO_ENUMERATOR int

text \<open>
  The fields of \<^verbatim>\<open>struct ast_command\<close> and \<^verbatim>\<open>struct ast_pipeline\<close> (shell-ast.h) that the
  source reads. \<open>argv\<close> is the vector without its closing NULL; a missing redirection
  (a NULL path) is \<open>None\<close>.
\<close>

record ast_command =
  argv :: "string list"
  dup_stderr_to_stdout :: bool

record ast_pipeline =
  commands :: "ast_command list"
  iored_input :: "string option"
  iored_output :: "string option"
  append_to_output :: bool
  bg_job :: bool

text \<open>
  \<^verbatim>\<open>struct job\<close>, lines 72-84. The link element \<^verbatim>\<open>elem\<close> is the membership of the job's
  address in \<open>job_list\<close> below. \<open>pids\<close> is the pointer: \<open>None\<close> is NULL, \<open>Some blk\<close> the
  block that \<^verbatim>\<open>malloc\<close> returned, one cell per stage of the pipeline.
\<close>

record job =
  pipe :: ast_pipeline
  jid :: int
  status :: job_status
  num_processes_alive :: int
  saved_tty_state :: termios
  termStateIsSaved :: bool
  pgid :: int
  pids :: "pid_t list option"

datatype signal = SIGFPE | SIGSEGV | SIGABRT | SIGKILL | SIGTERM | SIGTSTP | SIGSTOP | SIGCONT
  | SIGNUM nat

text \<open>
  The wait status, decoded: exactly one of \<^verbatim>\<open>WIFEXITED\<close>, \<^verbatim>\<open>WIFSIGNALED\<close>, \<^verbatim>\<open>WIFSTOPPED\<close>,
  \<^verbatim>\<open>WIFCONTINUED\<close> holds of a status that \<^verbatim>\<open>waitpid\<close> returns; the argument is
  \<^verbatim>\<open>WEXITSTATUS\<close>, \<^verbatim>\<open>WTERMSIG\<close>, \<^verbatim>\<open>WSTOPSIG\<close>.
\<close>

datatype wait_status = WEXITED int | WSIGNALED signal | WSTOPPED signal | WCONTINUED

text \<open>What one call of the blocking \<^verbatim>\<open>waitpid(-1, &status, WUNTRACED)\<close> returns.\<close>

datatype wait_ret = WaitChild pid_t wait_status | WaitError

text \<open>\<^verbatim>\<open>errno\<close> after a failed \<^verbatim>\<open>chdir\<close>; \<open>EOTHER m\<close> is any other value, \<open>m\<close> its \<^verbatim>\<open>strerror\<close>.\<close>

datatype errno = EACCES | ENOTDIR | ENOENT | EOTHER string

datatype open_mode = O_RDONLY | O_WRONLY_CREAT_APPEND | O_WRONLY_CREAT_TRUNC

datatype file_action = AddOpen int string open_mode | AddDup2 int int

text \<open>Everything the shell does to the outside world, in the order it does it.\<close>

datatype event =
    Stdout string
  | Stderr string
  | Perror string
  | Killpg int signal
  | TermstateSample
  | TermstateSave
  | GiveTerminalBackToShell
  | GiveTerminalTo "termios option" int
  | Pipe2
  | Close int
  | Spawnp string "string list" "file_action list" int bool
  | Chdir string

text \<open>
  The shell process: the heap of job records, the two registry structures of lines 86-93
  (\<open>job_list\<close> for iteration, \<open>jid2job\<close> for lookup), readline's history, whether SIGCHLD
  is blocked, the wait results still to come, and the trace. \<open>brk\<close> is the address the
  next \<^verbatim>\<open>malloc\<close> of a job record returns.
\<close>

record shell =
  heap :: "addr \<Rightarrow> job option"
  brk :: addr
  job_list :: "addr list"
  jid2job :: "nat \<Rightarrow> addr option"
  history :: "string list"
  sigchld_blocked :: bool
  waits :: "wait_ret list"
  trace :: "event list"

text \<open>
  The answers of the environment. A call is answered as a function of the moment it is
  made, the number of events before it (\<open>now\<close>).
  \<^item> \<open>sizeof_pids\<close>: \<^verbatim>\<open>sizeof(job->pids)\<close>, the size of a pointer (8 on LP64).
  \<^item> \<open>fresh_job a\<close>: the content of the block \<^verbatim>\<open>malloc(sizeof *job)\<close> returns at \<open>a\<close>,
    before the program writes to it.
  \<^item> \<open>pids_memory a i\<close>: the int at \<^verbatim>\<open>pids[i]\<close> of the block allocated for the job at \<open>a\<close>
    before the program writes to it, for the cells of the block and for the memory
    after it.
  \<^item> \<open>malloc_pids_ok\<close>, \<open>pipe2_ret\<close>, \<open>spawnp_ret\<close>, \<open>killpg_ok\<close>, \<open>tcgetattr_ret\<close>,
    \<open>chdir_ret\<close>, \<open>getenv_HOME\<close>: the results of the calls of these names
    (\<open>chdir_ret\<close> gives \<open>None\<close> for success, else \<^verbatim>\<open>errno\<close>).
  \<^item> \<open>history_before\<close>: whether the word before readline's history array,
    \<^verbatim>\<open>cmd_history[-1]\<close>, is not NULL.
\<close>

record world =
  sizeof_pids :: nat
  fresh_job :: "addr \<Rightarrow> job"
  pids_memory :: "addr \<Rightarrow> nat \<Rightarrow> pid_t"
  malloc_pids_ok :: "nat \<Rightarrow> bool"
  pipe2_ret :: "nat \<Rightarrow> (int \<times> int) option"
  spawnp_ret :: "nat \<Rightarrow> string \<Rightarrow> pid_t option"
  killpg_ok :: "nat \<Rightarrow> bool"
  tcgetattr_ret :: "nat \<Rightarrow> termios"
  chdir_ret :: "nat \<Rightarrow> string \<Rightarrow> errno option"
  getenv_HOME :: "string option"
  history_before :: bool

text \<open>
  How a function ends when it does not return: \<^verbatim>\<open>abort()\<close> or a failed \<^verbatim>\<open>assert\<close>,
  \<^verbatim>\<open>exit(n)\<close>, \<^verbatim>\<open>utils_fatal_error\<close> (utils.h: prints its message and ends the process),
  a blocking wait that no child ever ends, and a pointer use that C leaves undefined
  (NULL, freed or out-of-range memory).
\<close>

datatype halt = Abort | Exit int | FatalError | Blocked | Undefined

type_synonym 'a result = "(halt \<times> shell) + 'a"

definition now :: "shell \<Rightarrow> nat" where
  "now s = length (trace s)"

definition emit :: "event \<Rightarrow> shell \<Rightarrow> shell" where
  "emit e s = s\<lparr>trace := trace s @ [e]\<rparr>"

definition signal_block :: "shell \<Rightarrow> shell" where
  "signal_block s = s\<lparr>sigchld_blocked := True\<rparr>"

definition signal_unblock :: "shell \<Rightarrow> shell" where
  "signal_unblock s = s\<lparr>sigchld_blocked := False\<rparr>"

subsection \<open>Formatting and parsing of the C library\<close>

abbreviation NL :: string where
  "NL \<equiv> [CHR 0x0A]"

abbreviation TAB :: string where
  "TAB \<equiv> [CHR 0x09]"

function string_of_nat :: "nat \<Rightarrow> string" where
  "string_of_nat n =
     (if n < 10 then [''0123456789'' ! n]
      else string_of_nat (n div 10) @ [''0123456789'' ! (n mod 10)])"
  by pat_completeness auto
termination
  by (relation "measure id") auto

declare string_of_nat.simps [simp del]

text \<open>\<^verbatim>\<open>printf("%d")\<close>.\<close>

definition string_of_int :: "int \<Rightarrow> string" where
  "string_of_int i = (if i < 0 then CHR ''-'' # string_of_nat (nat (- i)) else string_of_nat (nat i))"

definition digit_val :: "char \<Rightarrow> nat" where
  "digit_val c = length (takeWhile (\<lambda>d. d \<noteq> c) ''0123456789'')"

definition isdigit :: "char \<Rightarrow> bool" where
  "isdigit c = (digit_val c < 10)"

definition isspace :: "char \<Rightarrow> bool" where
  "isspace c = (c \<in> set [CHR '' '', CHR 0x09, CHR 0x0A, CHR 0x0B, CHR 0x0C, CHR 0x0D])"

fun digits_value :: "int \<Rightarrow> string \<Rightarrow> int" where
  "digits_value acc [] = acc"
| "digits_value acc (c # cs) =
     (if isdigit c then digits_value (10 * acc + int (digit_val c)) cs else acc)"

text \<open>
  The decimal number a string starts with: white space, an optional sign, then digits; 0
  when there is no digit.
\<close>

definition decimal_value :: "string \<Rightarrow> int" where
  "decimal_value str =
     (case dropWhile isspace str of
        [] \<Rightarrow> 0
      | c # cs \<Rightarrow>
          if c = CHR ''-'' then - digits_value 0 cs
          else if c = CHR ''+'' then digits_value 0 cs
          else digits_value 0 (c # cs))"

text \<open>
  \<^verbatim>\<open>atoi\<close> of the C library the shell is linked with is \<^verbatim>\<open>(int) strtol(str, NULL, 10)\<close>:
  \<^verbatim>\<open>strtol\<close> clamps the number to the range of a 64-bit \<^verbatim>\<open>long\<close>, and the conversion to
  the 32-bit \<^verbatim>\<open>int\<close> keeps the low 32 bits, read as a signed number.
\<close>

definition strtol :: "string \<Rightarrow> int" where
  "strtol str = max (- (2 ^ 63)) (min (2 ^ 63 - 1) (decimal_value str))"

definition int_of_long :: "int \<Rightarrow> int" where
  "int_of_long v = (v + 2 ^ 31) mod 2 ^ 32 - 2 ^ 31"

definition atoi :: "string \<Rightarrow> int" where
  "atoi str = int_of_long (strtol str)"

subsection \<open>The job registry\<close>

text \<open>\<^verbatim>\<open>#define MAXJOBS (1<<16)\<close>, line 91.\<close>

definition MAXJOBS :: nat where
  "MAXJOBS = 2 ^ 16"

text \<open>\<^verbatim>\<open>get_job_from_jid\<close>, lines 96-103.\<close>

definition get_job_from_jid :: "shell \<Rightarrow> int \<Rightarrow> addr option" where
  "get_job_from_jid s j = (if j > 0 \<and> j < int MAXJOBS then jid2job s (nat j) else None)"

text \<open>The loop of \<^verbatim>\<open>add_job\<close>, lines 114-120: the first index from \<open>i\<close> whose slot is NULL.\<close>

function find_slot :: "(nat \<Rightarrow> addr option) \<Rightarrow> nat \<Rightarrow> nat option" where
  "find_slot tbl i =
     (if i < MAXJOBS then (if tbl i = None then Some i else find_slot tbl (Suc i)) else None)"
  by pat_completeness auto
termination
  by (relation "measure (\<lambda>(tbl, i). MAXJOBS - i)") auto

declare find_slot.simps [simp del]

text \<open>
  \<^verbatim>\<open>add_job\<close>, lines 106-124. The record is allocated, three fields are set, the record
  is linked into the list, and only then an id is looked for; when there is none the
  function prints and calls \<^verbatim>\<open>abort()\<close>.
\<close>

definition add_job :: "world \<Rightarrow> shell \<Rightarrow> ast_pipeline \<Rightarrow> (addr \<times> shell) result" where
  "add_job w s p =
     (let a = brk s;
          j = (fresh_job w a)\<lparr>pipe := p, num_processes_alive := 0, termStateIsSaved := False\<rparr>;
          s1 = s\<lparr>heap := (heap s)(a \<mapsto> j), brk := Suc a, job_list := job_list s @ [a]\<rparr>
      in case find_slot (jid2job s1) 1 of
           Some i \<Rightarrow>
             Inr (a, s1\<lparr>jid2job := (jid2job s1)(i \<mapsto> a),
                        heap := (heap s1)(a \<mapsto> j\<lparr>jid := int i\<rparr>)\<rparr>)
         | None \<Rightarrow>
             Inl (Abort, emit (Stderr (''Maximum number of jobs exceeded'' @ NL)) s1))"


definition set_job :: "addr \<Rightarrow> job \<Rightarrow> shell \<Rightarrow> shell" where
  "set_job a j s = s\<lparr>heap := (heap s)(a \<mapsto> j)\<rparr>"

text \<open>
  \<^verbatim>\<open>delete_job\<close>, lines 130-140: the assertion, the write through the table entry, the
  table entry cleared, the record freed. The list \<open>job_list\<close> is not touched here.
\<close>

definition delete_job :: "shell \<Rightarrow> addr \<Rightarrow> shell result" where
  "delete_job s a =
     (case heap s a of
        None \<Rightarrow> Inl (Undefined, s)
      | Some j \<Rightarrow>
          if jid j = - 1 then Inl (Abort, s)
          else if jid j < 0 \<or> int MAXJOBS \<le> jid j then Inl (Undefined, s)
          else
            (case jid2job s (nat (jid j)) of
               None \<Rightarrow> Inl (Undefined, s)
             | Some b \<Rightarrow>
                 (case heap s b of
                    None \<Rightarrow> Inl (Undefined, s)
                  | Some jb \<Rightarrow>
                      Inr (s\<lparr>heap := ((heap s)(b \<mapsto> jb\<lparr>jid := - 1\<rparr>))(a := None),
                             jid2job := (jid2job s)(nat (jid j) := None)\<rparr>))))"

subsection \<open>Printing\<close>

text \<open>\<^verbatim>\<open>get_status\<close>, lines 142-157, the \<^verbatim>\<open>default\<close> branch last.\<close>

fun get_status :: "job_status \<Rightarrow> string" where
  "get_status FOREGROUND = ''Foreground''"
| "get_status BACKGROUND = ''Running''"
| "get_status STOPPED = ''Stopped''"
| "get_status NEEDSTERMINAL = ''Stopped (tty)''"
| "get_status (NO_ENUMERATOR v) = ''Unknown''"

text \<open>
  \<^verbatim>\<open>print_cmdline\<close>, lines 160-173. The parser gives every command a program name; of an
  empty vector nothing is printed here.
\<close>

fun print_argv :: "string list \<Rightarrow> string" where
  "print_argv [] = []"
| "print_argv (x # xs) = x @ concat (map (\<lambda>y. '' '' @ y) xs)"

fun print_stages :: "bool \<Rightarrow> ast_command list \<Rightarrow> string" where
  "print_stages first [] = []"
| "print_stages first (c # cs) =
     (if first then [] else ''| '') @ print_argv (argv c) @ print_stages False cs"

definition print_cmdline :: "ast_pipeline \<Rightarrow> string" where
  "print_cmdline p = print_stages True (commands p)"

text \<open>The line \<^verbatim>\<open>print_job\<close> writes, lines 176-182.\<close>

definition job_line :: "job \<Rightarrow> string" where
  "job_line j =
     ''['' @ string_of_int (jid j) @ '']'' @ TAB @ get_status (status j) @ TAB @ TAB @ ''(''
       @ print_cmdline (pipe j) @ '')'' @ NL"

definition print_job :: "job \<Rightarrow> shell \<Rightarrow> shell" where
  "print_job j s = emit (Stdout (job_line j)) s"

text \<open>The line \<^verbatim>\<open>print_bg\<close> writes, lines 185-189.\<close>

definition bg_line :: "job \<Rightarrow> string" where
  "bg_line j = ''['' @ string_of_int (jid j) @ ''] '' @ string_of_int (pgid j) @ NL"

definition print_bg :: "job \<Rightarrow> shell \<Rightarrow> shell" where
  "print_bg j s = emit (Stdout (bg_line j)) s"

subsection \<open>The status reconciler\<close>

text \<open>
  \<^verbatim>\<open>job->pids[i]\<close>: a cell of the block, or, past its end, what the memory after the block
  holds.
\<close>

definition pids_at :: "world \<Rightarrow> addr \<Rightarrow> pid_t list \<Rightarrow> nat \<Rightarrow> pid_t" where
  "pids_at w a blk i = (if i < length blk then blk ! i else pids_memory w a i)"

fun signal_message :: "signal \<Rightarrow> string option" where
  "signal_message SIGFPE = Some ''Floating point exception''"
| "signal_message SIGSEGV = Some ''Segmentation fault''"
| "signal_message SIGABRT = Some ''Aborted''"
| "signal_message SIGKILL = Some ''Killed''"
| "signal_message SIGTERM = Some ''Terminated''"
| "signal_message _ = None"

text \<open>Lines 257-298: what is done for an entry equal to the pid.\<close>

definition child_matched :: "world \<Rightarrow> addr \<Rightarrow> job \<Rightarrow> wait_status \<Rightarrow> shell \<Rightarrow> shell" where
  "child_matched w a j st s =
     (case st of
        WEXITED c \<Rightarrow>
          set_job a (j\<lparr>num_processes_alive := num_processes_alive j - 1\<rparr>)
            (if status j = FOREGROUND
             then emit GiveTerminalBackToShell (emit TermstateSample s) else s)
      | WSIGNALED sg \<Rightarrow>
          (let s1 = set_job a (j\<lparr>num_processes_alive := num_processes_alive j - 1\<rparr>) s
           in case signal_message sg of
                None \<Rightarrow> s1
              | Some m \<Rightarrow> emit (Stderr (m @ NL)) s1)
      | WSTOPPED sg \<Rightarrow>
          (let j1 = (if status j = FOREGROUND
                     then j\<lparr>saved_tty_state := tcgetattr_ret w (now s), termStateIsSaved := True\<rparr>
                     else j);
               j2 = j1\<lparr>status := STOPPED\<rparr>;
               s1 = set_job a j2 s;
               s2 = (if sg = SIGTSTP then print_job j2 s1 else s1)
           in emit GiveTerminalBackToShell (emit TermstateSave s2))
      | WCONTINUED \<Rightarrow>
          (if status j = STOPPED \<or> status j = NEEDSTERMINAL
           then set_job a (j\<lparr>status := BACKGROUND\<rparr>) s else s))"

text \<open>
  The inner loop, line 255: \<open>i\<close> runs from 0 to \<^verbatim>\<open>sizeof(job->pids)\<close>, whatever the number
  of stages is, and goes on after a match.
\<close>

function scan_pids :: "world \<Rightarrow> pid_t \<Rightarrow> wait_status \<Rightarrow> addr \<Rightarrow> nat \<Rightarrow> shell \<Rightarrow> shell result" where
  "scan_pids w pid st a i s =
     (if i < sizeof_pids w then
        (case heap s a of
           None \<Rightarrow> Inl (Undefined, s)
         | Some j \<Rightarrow>
             (case pids j of
                None \<Rightarrow> Inl (Undefined, s)
              | Some blk \<Rightarrow>
                  scan_pids w pid st a (Suc i)
                    (if pids_at w a blk i = pid then child_matched w a j st s else s)))
      else Inr s)"
  by pat_completeness auto
termination
  by (relation "measure (\<lambda>(w, pid, st, a, i, s). sizeof_pids w - i)") auto

declare scan_pids.simps [simp del]

text \<open>The outer loop, lines 247-301, over the job list.\<close>

fun scan_jobs :: "world \<Rightarrow> pid_t \<Rightarrow> wait_status \<Rightarrow> addr list \<Rightarrow> shell \<Rightarrow> shell result" where
  "scan_jobs w pid st [] s = Inr s"
| "scan_jobs w pid st (a # as) s =
     (case scan_pids w pid st a 0 s of
        Inl h \<Rightarrow> Inl h
      | Inr s' \<Rightarrow> scan_jobs w pid st as s')"

text \<open>
  \<^verbatim>\<open>handle_child_status\<close>, lines 238-302. The test \<^verbatim>\<open>if (!job)\<close> of line 250 is never true:
  \<^verbatim>\<open>list_entry\<close> of an element of the list is not NULL, so its message is never printed.
\<close>

definition handle_child_status :: "world \<Rightarrow> shell \<Rightarrow> pid_t \<Rightarrow> wait_status \<Rightarrow> shell result" where
  "handle_child_status w s pid st =
     (if job_list s = [] then Inr (emit (Stderr (''job list is empty'' @ NL)) s)
      else scan_jobs w pid st (job_list s) s)"

subsection \<open>The foreground waiter\<close>

text \<open>
  The loop of \<^verbatim>\<open>wait_for_job\<close>, lines 211-231, over the wait results still to come: when
  the job is in the foreground with a live process and no child ever changes state again,
  the shell stays blocked in \<^verbatim>\<open>waitpid\<close>.
\<close>

fun wait_loop :: "world \<Rightarrow> addr \<Rightarrow> wait_ret list \<Rightarrow> shell \<Rightarrow> shell result" where
  "wait_loop w a [] s =
     (case heap s a of
        None \<Rightarrow> Inl (Undefined, s)
      | Some j \<Rightarrow>
          if status j = FOREGROUND \<and> num_processes_alive j > 0 then Inl (Blocked, s)
          else Inr s)"
| "wait_loop w a (r # rs) s =
     (case heap s a of
        None \<Rightarrow> Inl (Undefined, s)
      | Some j \<Rightarrow>
          if status j = FOREGROUND \<and> num_processes_alive j > 0 then
            (case r of
               WaitError \<Rightarrow>
                 Inl (FatalError,
                      emit (Stderr ''waitpid failed, see code for explanation'') (s\<lparr>waits := rs\<rparr>))
             | WaitChild pid st \<Rightarrow>
                 (case handle_child_status w (s\<lparr>waits := rs\<rparr>) pid st of
                    Inl h \<Rightarrow> Inl h
                  | Inr s' \<Rightarrow> wait_loop w a rs s'))
          else Inr s)"

text \<open>\<^verbatim>\<open>wait_for_job\<close>, lines 206-234.\<close>

definition wait_for_job :: "world \<Rightarrow> shell \<Rightarrow> addr \<Rightarrow> shell result" where
  "wait_for_job w s a =
     (if \<not> sigchld_blocked s then Inl (Abort, s)
      else
        (case wait_loop w a (waits s) s of
           Inl h \<Rightarrow> Inl h
         | Inr s' \<Rightarrow> Inr (signal_unblock (emit GiveTerminalBackToShell s'))))"


subsection \<open>The builtins\<close>

text \<open>\<^verbatim>\<open>cmd->argv[1]\<close>, NULL when the vector has the program name only.\<close>

definition argv1 :: "ast_command \<Rightarrow> string option" where
  "argv1 cmd = (case argv cmd of x # y # ys \<Rightarrow> Some y | _ \<Rightarrow> None)"

text \<open>\<^verbatim>\<open>fg_builtin\<close>, lines 305-333.\<close>

definition fg_builtin :: "world \<Rightarrow> shell \<Rightarrow> ast_command \<Rightarrow> shell result" where
  "fg_builtin w s cmd =
     (case argv1 cmd of
        None \<Rightarrow> Inr (emit (Perror ''No argument given with fg'') s)
      | Some arg \<Rightarrow>
          (let jobID = atoi arg in
           case get_job_from_jid s jobID of
             None \<Rightarrow>
               Inr (emit (Stderr (''fg '' @ string_of_int jobID @ '' failed, no such job'' @ NL)) s)
           | Some a \<Rightarrow>
               (case heap s a of
                  None \<Rightarrow> Inl (Undefined, s)
                | Some j \<Rightarrow>
                    (let j1 = j\<lparr>status := FOREGROUND, termStateIsSaved := False\<rparr>;
                         s1 = emit (GiveTerminalTo
                                (if termStateIsSaved j then Some (saved_tty_state j) else None)
                                (pgid j)) (set_job a j1 s);
                         s2 = print_job j1 s1;
                         s3 = emit (Killpg (pgid j1) SIGCONT) s2
                     in if killpg_ok w (now s2) then wait_for_job w s3 a
                        else Inl (FatalError,
                               emit (Stderr (''kill pgid failed '' @ string_of_int (pgid j1))) s3)))))"

text \<open>\<^verbatim>\<open>bg_builtin\<close>, lines 335-360.\<close>

definition bg_builtin :: "world \<Rightarrow> shell \<Rightarrow> ast_command \<Rightarrow> shell result" where
  "bg_builtin w s cmd =
     (case argv1 cmd of
        None \<Rightarrow> Inr (emit (Stderr (''bg: not enough arguments'' @ NL)) s)
      | Some arg \<Rightarrow>
          (let jobID = atoi arg in
           case get_job_from_jid s jobID of
             None \<Rightarrow>
               Inr (emit (Stderr (''bg '' @ string_of_int jobID @ '' failed, no such job'' @ NL)) s)
           | Some a \<Rightarrow>
               (case heap s a of
                  None \<Rightarrow> Inl (Undefined, s)
                | Some j \<Rightarrow>
                    if status j \<noteq> STOPPED then
                      Inr (emit (Stderr (''this job: '' @ string_of_int jobID
                                   @ '' is already running'' @ NL)) s)
                    else
                      (let j1 = j\<lparr>status := BACKGROUND\<rparr>;
                           s2 = print_job j1 (set_job a j1 s);
                           s3 = emit (Killpg (pgid j1) SIGCONT) s2
                       in if killpg_ok w (now s2) then wait_for_job w s3 a
                          else Inl (FatalError,
                                 emit (Stderr (''kill pgid failed '' @ string_of_int (pgid j1))) s3)))))"

text \<open>
  The loop of \<^verbatim>\<open>jobs_builtin\<close>, lines 364-369, from index \<open>i\<close>.
\<close>

function jobs_from :: "nat \<Rightarrow> shell \<Rightarrow> shell result" where
  "jobs_from i s =
     (if i < MAXJOBS then
        (case get_job_from_jid s (int i) of
           None \<Rightarrow> jobs_from (Suc i) s
         | Some a \<Rightarrow>
             (case heap s a of
                None \<Rightarrow> Inl (Undefined, s)
              | Some j \<Rightarrow> jobs_from (Suc i) (print_job j s)))
      else Inr s)"
  by pat_completeness auto
termination
  by (relation "measure (\<lambda>(i, s). MAXJOBS - i)") auto

declare jobs_from.simps [simp del]

definition jobs_builtin :: "shell \<Rightarrow> shell result" where
  "jobs_builtin s = jobs_from 1 s"

text \<open>The \<^verbatim>\<open>for\<close> loops of \<^verbatim>\<open>kill_builtin\<close> and \<^verbatim>\<open>stop_builtin\<close>: one \<^verbatim>\<open>killpg\<close> per turn.\<close>

primrec killpg_times :: "nat \<Rightarrow> int \<Rightarrow> signal \<Rightarrow> shell \<Rightarrow> shell" where
  "killpg_times 0 pg sg s = s"
| "killpg_times (Suc n) pg sg s = killpg_times n pg sg (emit (Killpg pg sg) s)"

text \<open>\<^verbatim>\<open>kill_builtin\<close>, lines 372-389.\<close>

definition kill_builtin :: "shell \<Rightarrow> ast_command \<Rightarrow> shell result" where
  "kill_builtin s cmd =
     (case argv1 cmd of
        None \<Rightarrow> Inr (emit (Stderr (''kill: not enough arguments'' @ NL)) s)
      | Some arg \<Rightarrow>
          (let jobID = atoi arg in
           case get_job_from_jid s jobID of
             None \<Rightarrow>
               Inr (emit (Stderr (''attempt to kill '' @ string_of_int jobID
                            @ '' failed, no such process'' @ NL)) s)
           | Some a \<Rightarrow>
               (case heap s a of
                  None \<Rightarrow> Inl (Undefined, s)
                | Some j \<Rightarrow>
                    if jid j = atoi arg then
                      Inr (killpg_times (nat (num_processes_alive j)) (pgid j) SIGKILL
                             (set_job a (j\<lparr>status := STOPPED\<rparr>) s))
                    else Inr s)))"

text \<open>\<^verbatim>\<open>stop_builtin\<close>, lines 391-409.\<close>

definition stop_builtin :: "shell \<Rightarrow> ast_command \<Rightarrow> shell result" where
  "stop_builtin s cmd =
     (case argv1 cmd of
        None \<Rightarrow> Inr (emit (Stderr (''stop: not enough arguments'' @ NL)) s)
      | Some arg \<Rightarrow>
          (let jobID = atoi arg in
           case get_job_from_jid s jobID of
             None \<Rightarrow>
               Inr (emit (Stderr (''attempt to stop '' @ string_of_int jobID
                            @ '' failed, no such process'' @ NL)) s)
           | Some a \<Rightarrow>
               (case heap s a of
                  None \<Rightarrow> Inl (Undefined, s)
                | Some j \<Rightarrow>
                    if jid j = atoi arg then
                      Inr (killpg_times (nat (num_processes_alive j)) (pgid j) SIGSTOP
                             (set_job a (j\<lparr>status := STOPPED\<rparr>) s))
                    else Inr s)))"

text \<open>\<^verbatim>\<open>exit_builtin\<close>, lines 411-419: every job of the table is deleted, then \<^verbatim>\<open>exit(0)\<close>.\<close>

function exit_from :: "nat \<Rightarrow> shell \<Rightarrow> shell result" where
  "exit_from i s =
     (if i < MAXJOBS then
        (case get_job_from_jid s (int i) of
           None \<Rightarrow> exit_from (Suc i) s
         | Some a \<Rightarrow>
             (case delete_job s a of
                Inl h \<Rightarrow> Inl h
              | Inr s' \<Rightarrow> exit_from (Suc i) s'))
      else Inr s)"
  by pat_completeness auto
termination
  by (relation "measure (\<lambda>(i, s). MAXJOBS - i)") auto

declare exit_from.simps [simp del]

definition exit_builtin :: "shell \<Rightarrow> shell result" where
  "exit_builtin s =
     (case exit_from 1 s of
        Inl h \<Rightarrow> Inl h
      | Inr s' \<Rightarrow> Inl (Exit 0, s'))"

text \<open>\<^verbatim>\<open>cd_custom_builtin\<close>, lines 421-451.\<close>

definition cd_custom_builtin :: "world \<Rightarrow> shell \<Rightarrow> ast_command \<Rightarrow> shell" where
  "cd_custom_builtin w s cmd =
     (case argv1 cmd of
        None \<Rightarrow>
          (case getenv_HOME w of
             None \<Rightarrow> emit (Stderr (''cd: HOME env variable not set'' @ NL)) s
           | Some home \<Rightarrow>
               (case chdir_ret w (now s) home of
                  None \<Rightarrow> emit (Chdir home) s
                | Some e \<Rightarrow>
                    emit (Stderr (''cd: Changing directory to HOME failed:'' @ NL))
                      (emit (Chdir home) s)))
      | Some path \<Rightarrow>
          (case chdir_ret w (now s) path of
             None \<Rightarrow> emit (Chdir path) s
           | Some EACCES \<Rightarrow>
               emit (Stderr (''cd: Permission denied!'' @ NL)) (emit (Chdir path) s)
           | Some ENOTDIR \<Rightarrow>
               emit (Stderr (''cd: Can't change directory to a file: '' @ path @ NL))
                 (emit (Chdir path) s)
           | Some ENOENT \<Rightarrow>
               emit (Stderr (''cd: No such file or directory: '' @ path @ NL))
                 (emit (Chdir path) s)
           | Some (EOTHER m) \<Rightarrow>
               emit (Stderr (''cd: Could not change directory: '' @ m @ NL))
                 (emit (Chdir path) s)))"

text \<open>\<^verbatim>\<open>history_custom_builtin\<close>, lines 453-462: entry \<open>i\<close> is printed with number \<open>i + 1\<close>.\<close>

fun history_from :: "nat \<Rightarrow> string list \<Rightarrow> shell \<Rightarrow> shell" where
  "history_from i [] s = s"
| "history_from i (l # ls) s =
     history_from (Suc i) ls
       (emit (Stdout (''['' @ string_of_int (int i + 1) @ '']: '' @ l @ NL)) s)"

definition history_custom_builtin :: "shell \<Rightarrow> shell" where
  "history_custom_builtin s = history_from 0 (history s) s"


subsection \<open>History recall\<close>

text \<open>The character \<^verbatim>\<open>str[i]\<close> of a C string, the closing NUL at its end.\<close>

definition char_at :: "string \<Rightarrow> nat \<Rightarrow> char" where
  "char_at str i = (if i < length str then str ! i else CHR 0x00)"

definition is_blank :: "char \<Rightarrow> bool" where
  "is_blank c = (c = CHR '' '')"

text \<open>
  \<^verbatim>\<open>strtok(line, " ")\<close> and the \<^verbatim>\<open>strtok(NULL, " ")\<close> after it: the first and the second
  word of the line, NULL (\<open>None\<close>) when there is none. \<^verbatim>\<open>strtok\<close> writes a NUL after the word
  it returns, so the line is cut after its first word.
\<close>

definition strtok1 :: "string \<Rightarrow> string option" where
  "strtok1 l =
     (case dropWhile is_blank l of
        [] \<Rightarrow> None
      | c # cs \<Rightarrow> Some (takeWhile (\<lambda>x. \<not> is_blank x) (c # cs)))"

definition strtok2 :: "string \<Rightarrow> string option" where
  "strtok2 l = strtok1 (dropWhile (\<lambda>x. \<not> is_blank x) (dropWhile is_blank l))"

definition line_after_strtok :: "string \<Rightarrow> string" where
  "line_after_strtok l =
     takeWhile is_blank l @ takeWhile (\<lambda>x. \<not> is_blank x) (dropWhile is_blank l)"

text \<open>
  \<^verbatim>\<open>cmd_history[k]->line\<close>: the \<open>k\<close>-th retained line, oldest first. The array has one
  pointer per line and a closing NULL; any other index is outside it.
\<close>

definition history_line :: "shell \<Rightarrow> int \<Rightarrow> string option" where
  "history_line s k =
     (if 0 \<le> k \<and> k < int (length (history s)) then Some (history s ! nat k) else None)"

text \<open>
  Lines 542-548 and 565-571: \<^verbatim>\<open>size\<close> starts at -1, so the first pointer read is
  \<^verbatim>\<open>cmd_history[-1]\<close>. When that word is NULL \<^verbatim>\<open>size\<close> stays -1; otherwise the loop counts
  up to the closing NULL and \<^verbatim>\<open>size\<close> ends as the number of lines plus one. Without any
  line \<^verbatim>\<open>history_list()\<close> is NULL and the read is undefined (\<open>None\<close>).
\<close>

definition history_size :: "world \<Rightarrow> shell \<Rightarrow> int option" where
  "history_size w s =
     (if history s = [] then None
      else if history_before w then Some (int (length (history s)) + 1)
      else Some (- 1))"

text \<open>
  The write \<^verbatim>\<open>cmd->argv = ...\<close> of the recall, seen through the job: the job's pipeline is
  the pipeline the loop runs over.
\<close>

definition set_command :: "addr \<Rightarrow> nat \<Rightarrow> ast_command \<Rightarrow> shell \<Rightarrow> shell" where
  "set_command a idx cmd s =
     (case heap s a of
        None \<Rightarrow> s
      | Some j \<Rightarrow>
          set_job a (j\<lparr>pipe := (pipe j)\<lparr>commands := (commands (pipe j))[idx := cmd]\<rparr>\<rparr>) s)"

text \<open>
  Lines 553-559 and 580-586: the vector of the command (stage \<open>idx\<close> of the job at \<open>a\<close>)
  is replaced by the first two words of history line \<open>k\<close>.
\<close>

definition recall_entry :: "shell \<Rightarrow> addr \<Rightarrow> nat \<Rightarrow> int \<Rightarrow> ast_command \<Rightarrow> (ast_command option \<times> shell) result" where
  "recall_entry s a idx k cmd =
     (case history_line s k of
        None \<Rightarrow> Inl (Undefined, s)
      | Some l \<Rightarrow>
          (case strtok1 l of
             None \<Rightarrow> Inl (Undefined, s)
           | Some t1 \<Rightarrow>
               (let l' = line_after_strtok l;
                    s1 = s\<lparr>history := (history s)[nat k := l']\<rparr>;
                    cmd' = cmd\<lparr>argv := t1 # (case strtok2 l of None \<Rightarrow> [] | Some t2 \<Rightarrow> [t2])\<rparr>
                in Inr (Some cmd',
                        emit (Stdout (''Running command from history: '' @ l' @ NL))
                          (set_command a idx cmd' s1)))))"

text \<open>
  Lines 537-592, for a program name that starts with \<open>!\<close>. The result \<open>None\<close> is the
  \<^verbatim>\<open>return\<close> out of \<^verbatim>\<open>run_command\<close>; \<open>Some cmd'\<close> goes on to the launch with the new vector.
\<close>

definition history_recall :: "world \<Rightarrow> shell \<Rightarrow> addr \<Rightarrow> nat \<Rightarrow> ast_command \<Rightarrow> string \<Rightarrow> (ast_command option \<times> shell) result" where
  "history_recall w s a idx cmd name =
     (if char_at name 1 = CHR ''-'' \<and> isdigit (char_at name 2) then
        (let n = atoi (drop 2 name) in
         case history_size w s of
           None \<Rightarrow> Inl (Undefined, s)
         | Some sz \<Rightarrow>
             if sz = - 1 then
               Inr (None, emit (Stderr (''Improper n-value for !-n cmd'' @ NL)) s)
             else recall_entry s a idx (sz - n - 2) cmd)
      else if isdigit (char_at name 1) then
        (let n = atoi (drop 1 name) in
         case history_size w s of
           None \<Rightarrow> Inl (Undefined, s)
         | Some sz \<Rightarrow>
             if sz = - 1 then
               Inr (None, emit (Stderr (''Improper n-value for !n cmd'' @ NL)) s)
             else if n \<ge> sz \<or> n < 1 then
               Inr (None, emit (Stderr (''Improper n-value for !n cmd'' @ NL)) s)
             else recall_entry s a idx (n - 1) cmd)
      else
        Inr (None,
             emit (Stderr (''Invalid event designator format, accepted use-cases: {!n, !-n}''
                     @ NL)) s))"

subsection \<open>The pipeline executor\<close>

text \<open>The chain of \<^verbatim>\<open>strcmp\<close> tests, lines 497-536; \<open>None\<close> when the name is no builtin.\<close>

definition builtin :: "world \<Rightarrow> shell \<Rightarrow> ast_command \<Rightarrow> string \<Rightarrow> shell result option" where
  "builtin w s cmd name =
     (if name = ''jobs'' then Some (jobs_builtin s)
      else if name = ''fg'' then Some (fg_builtin w s cmd)
      else if name = ''bg'' then Some (bg_builtin w s cmd)
      else if name = ''kill'' then Some (kill_builtin s cmd)
      else if name = ''exit'' then Some (exit_builtin s)
      else if name = ''stop'' then Some (stop_builtin s cmd)
      else if name = ''cd'' then Some (Inr (cd_custom_builtin w s cmd))
      else if name = ''history'' then Some (Inr (history_custom_builtin s))
      else None)"

text \<open>The file actions of a stage, lines 611-639, in the order they are added.\<close>

definition file_actions :: "ast_pipeline \<Rightarrow> ast_command \<Rightarrow> nat \<Rightarrow> bool \<Rightarrow> int \<Rightarrow> int \<Rightarrow> file_action list" where
  "file_actions p cmd idx is_last prev_fd wr =
     (case iored_input p of
        Some path \<Rightarrow> if idx = 0 then [AddOpen 0 path O_RDONLY] else []
      | None \<Rightarrow> [])
     @ (case iored_output p of
          Some path \<Rightarrow>
            if is_last then
              [AddOpen 1 path
                 (if append_to_output p then O_WRONLY_CREAT_APPEND else O_WRONLY_CREAT_TRUNC)]
            else []
        | None \<Rightarrow> [])
     @ (if prev_fd \<noteq> - 1 then [AddDup2 prev_fd 0] else [])
     @ (if \<not> is_last then [AddDup2 wr 1] else [])
     @ (if dup_stderr_to_stdout cmd then [AddDup2 1 2] else [])"

text \<open>Lines 675-684: the pipe ends the shell closes after a launch.\<close>

definition close_ends :: "bool \<Rightarrow> int \<Rightarrow> int \<Rightarrow> shell \<Rightarrow> shell" where
  "close_ends is_last prev_fd wr s =
     (let s1 = (if prev_fd \<noteq> - 1 then emit (Close prev_fd) s else s)
      in if \<not> is_last then emit (Close wr) s1
         else if prev_fd \<noteq> - 1 then emit (Close prev_fd) s1
         else s1)"

text \<open>
  Lines 658-665: the failure path of the launch. The job is deleted from the table and
  freed; nothing unlinks it from the list.
\<close>

definition spawn_failed :: "shell \<Rightarrow> addr \<Rightarrow> shell result" where
  "spawn_failed s a =
     (case delete_job (signal_unblock (emit (Perror ''posix_spawnp failed'') s)) a of
        Inl h \<Rightarrow> Inl h
      | Inr s' \<Rightarrow> Inr (emit GiveTerminalBackToShell s'))"

text \<open>
  Lines 594-692: one stage from the pipe to the status. \<open>is_last\<close> is
  \<^verbatim>\<open>list_next(inner_e) == list_end(...)\<close>. The result \<open>None\<close> is the \<^verbatim>\<open>return\<close> out of
  \<^verbatim>\<open>run_command\<close>, \<open>Some (gid, prev_fd)\<close> the two locals for the next stage.
\<close>

definition launch :: "world \<Rightarrow> addr \<Rightarrow> ast_pipeline \<Rightarrow> ast_command \<Rightarrow> bool \<Rightarrow> nat \<Rightarrow> int \<Rightarrow> int \<Rightarrow> shell \<Rightarrow> ((int \<times> int) option \<times> shell) result" where
  "launch w a p cmd is_last idx gid prev_fd s =
     (case (if is_last then Some (- 1, - 1) else pipe2_ret w (now s)) of
        None \<Rightarrow>
          (case delete_job (signal_unblock (emit (Perror ''pipe2 failed'') (emit Pipe2 s))) a of
             Inl h \<Rightarrow> Inl h
           | Inr s' \<Rightarrow> Inr (None, s'))
      | Some (rd, wr) \<Rightarrow>
          (let s1 = (if is_last then s else emit Pipe2 s);
               name = (case argv cmd of [] \<Rightarrow> [] | x # xs \<Rightarrow> x);
               s2 = emit (Spawnp name (argv cmd) (file_actions p cmd idx is_last prev_fd wr)
                            (if idx = 0 then 0 else gid) (\<not> bg_job p)) s1
           in case spawnp_ret w (now s1) name of
                None \<Rightarrow>
                  (case spawn_failed s2 a of
                     Inl h \<Rightarrow> Inl h
                   | Inr s' \<Rightarrow> Inr (None, s'))
              | Some pid \<Rightarrow>
                  (case heap s2 a of
                     None \<Rightarrow> Inl (Undefined, s2)
                   | Some j \<Rightarrow>
                       (case pids j of
                          None \<Rightarrow> Inl (Undefined, s2)
                        | Some blk \<Rightarrow>
                            if \<not> idx < length blk then Inl (Undefined, s2)
                            else
                              (let j1 = (if idx = 0 then j\<lparr>pgid := pid\<rparr> else j);
                                   j2 = j1\<lparr>pids := Some (blk[idx := pid]),
                                           num_processes_alive := num_processes_alive j1 + 1\<rparr>;
                                   s3 = close_ends is_last prev_fd wr s2;
                                   j3 = j2\<lparr>status := (if bg_job p then BACKGROUND else FOREGROUND)\<rparr>;
                                   s4 = set_job a j3 s3;
                                   s5 = (if bg_job p then print_bg j3 s4 else s4)
                               in Inr (Some (if idx = 0 then pid else gid,
                                             if \<not> is_last then rd else prev_fd), s5))))))"

datatype loop_exit = Returned | Completed

text \<open>
  The inner loop of \<^verbatim>\<open>run_command\<close>, lines 491-694, over the commands of one pipeline.
  \<open>Returned\<close> is a \<^verbatim>\<open>return\<close> out of \<^verbatim>\<open>run_command\<close>, \<open>Completed\<close> the end of the list.
\<close>

fun run_stages :: "world \<Rightarrow> addr \<Rightarrow> ast_pipeline \<Rightarrow> ast_command list \<Rightarrow> nat \<Rightarrow> int \<Rightarrow> int \<Rightarrow> shell \<Rightarrow> (loop_exit \<times> shell) result" where
  "run_stages w a p [] idx gid prev_fd s = Inr (Completed, s)"
| "run_stages w a p (cmd # rest) idx gid prev_fd s =
     (let s0 = emit TermstateSample s in
      case argv cmd of
        [] \<Rightarrow> Inl (Undefined, s0)
      | name # args \<Rightarrow>
          (case builtin w s0 cmd name of
             Some (Inl h) \<Rightarrow> Inl h
           | Some (Inr s') \<Rightarrow> Inr (Returned, signal_unblock s')
           | None \<Rightarrow>
               (case (if char_at name 0 = CHR ''!'' then history_recall w s0 a idx cmd name
                      else Inr (Some cmd, s0)) of
                  Inl h \<Rightarrow> Inl h
                | Inr (None, s1) \<Rightarrow> Inr (Returned, s1)
                | Inr (Some cmd1, s1) \<Rightarrow>
                    (case launch w a p cmd1 (rest = []) idx gid prev_fd s1 of
                       Inl h \<Rightarrow> Inl h
                     | Inr (None, s2) \<Rightarrow> Inr (Returned, s2)
                     | Inr (Some (gid', prev'), s2) \<Rightarrow>
                         run_stages w a p rest (Suc idx) gid' prev' s2))))"

text \<open>
  The outer loop of \<^verbatim>\<open>run_command\<close>, lines 469-697: for each pipeline a job is added and
  its block of pids allocated, then the stages run, then the shell waits for the job.
\<close>

fun run_pipelines :: "world \<Rightarrow> ast_pipeline list \<Rightarrow> shell \<Rightarrow> (loop_exit \<times> shell) result" where
  "run_pipelines w [] s = Inr (Completed, s)"
| "run_pipelines w (p # ps) s =
     (case add_job w s p of
        Inl h \<Rightarrow> Inl h
      | Inr (a, s1) \<Rightarrow>
          (case heap s1 a of
             None \<Rightarrow> Inl (Undefined, s1)
           | Some j \<Rightarrow>
               if \<not> malloc_pids_ok w (now s1) then
                 Inr (Returned,
                      emit (Stderr (''memory allocation failed for job PIDs list'' @ NL))
                        (set_job a (j\<lparr>pids := None\<rparr>) s1))
               else
                 (case run_stages w a p (commands p) 0 0 (- 1)
                         (set_job a
                            (j\<lparr>pids := Some (map (pids_memory w a) [0..<length (commands p)])\<rparr>)
                            s1) of
                    Inl h \<Rightarrow> Inl h
                  | Inr (Returned, s3) \<Rightarrow> Inr (Returned, s3)
                  | Inr (Completed, s3) \<Rightarrow>
                      (case wait_for_job w (signal_block s3) a of
                         Inl h \<Rightarrow> Inl h
                       | Inr s4 \<Rightarrow> run_pipelines w ps s4))))"

text \<open>\<^verbatim>\<open>run_command\<close>, lines 465-700; the command line is its list of pipelines.\<close>

definition run_command :: "world \<Rightarrow> shell \<Rightarrow> ast_pipeline list \<Rightarrow> shell result" where
  "run_command w s cmdline =
     (case run_pipelines w cmdline (signal_block (emit TermstateSample s)) of
        Inl h \<Rightarrow> Inl h
      | Inr (Returned, s') \<Rightarrow> Inr s'
      | Inr (Completed, s') \<Rightarrow> Inr (emit GiveTerminalBackToShell (signal_unblock s')))"

subsection \<open>The read loop\<close>

text \<open>
  The loop of \<^verbatim>\<open>main\<close>, lines 752-761, from index \<open>i\<close>: a job of the table without live
  process is unlinked from the list and deleted.
\<close>

function reap_from :: "nat \<Rightarrow> shell \<Rightarrow> shell result" where
  "reap_from i s =
     (if i < MAXJOBS then
        (case get_job_from_jid s (int i) of
           None \<Rightarrow> reap_from (Suc i) s
         | Some a \<Rightarrow>
             (case heap s a of
                None \<Rightarrow> Inl (Undefined, s)
              | Some j \<Rightarrow>
                  if num_processes_alive j = 0 then
                    (case delete_job (s\<lparr>job_list := remove1 a (job_list s)\<rparr>) a of
                       Inl h \<Rightarrow> Inl h
                     | Inr s' \<Rightarrow> reap_from (Suc i) s')
                  else reap_from (Suc i) s))
      else Inr s)"
  by pat_completeness auto
termination
  by (relation "measure (\<lambda>(i, s). MAXJOBS - i)") auto

declare reap_from.simps [simp del]

text \<open>
  One turn of the loop of \<^verbatim>\<open>main\<close>, lines 724-762, for a line read and its parse
  (\<open>None\<close> for a line the parser refuses). The assertion of line 727 about the owner
  of the terminal reads state of termstate_management.h and is left out, as are
  \<^verbatim>\<open>usage\<close>, \<^verbatim>\<open>build_prompt\<close> and the asynchronous \<^verbatim>\<open>sigchld_handler\<close>, which feeds
  \<^verbatim>\<open>handle_child_status\<close> the same observations as the waiter does.
\<close>

definition prompt_cycle :: "world \<Rightarrow> shell \<Rightarrow> string \<Rightarrow> ast_pipeline list option \<Rightarrow> shell result" where
  "prompt_cycle w s line cline =
     (let s1 = (signal_unblock s)\<lparr>history := history s @ [line]\<rparr> in
      case cline of
        None \<Rightarrow> Inr s1
      | Some [] \<Rightarrow> Inr s1
      | Some (p # ps) \<Rightarrow>
          (case run_command w s1 (p # ps) of
             Inl h \<Rightarrow> Inl h
           | Inr s2 \<Rightarrow> reap_from 1 s2))"


subsection \<open>Reading a result\<close>

definition halted :: "'a result \<Rightarrow> halt option" where
  "halted r = (case r of Inl (h, s) \<Rightarrow> Some h | Inr x \<Rightarrow> None)"

definition final :: "shell result \<Rightarrow> shell" where
  "final r = (case r of Inl (h, s) \<Rightarrow> s | Inr s \<Rightarrow> s)"

fun stdout_lines :: "event list \<Rightarrow> string list" where
  "stdout_lines [] = []"
| "stdout_lines (Stdout x # es) = x # stdout_lines es"
| "stdout_lines (e # es) = stdout_lines es"

fun stderr_lines :: "event list \<Rightarrow> string list" where
  "stderr_lines [] = []"
| "stderr_lines (Stderr x # es) = x # stderr_lines es"
| "stderr_lines (Perror x # es) = x # stderr_lines es"
| "stderr_lines (e # es) = stderr_lines es"

text \<open>
  The invariant of the table that \<^verbatim>\<open>add_job\<close> and \<^verbatim>\<open>delete_job\<close> keep: slot \<open>i\<close> holds a
  live job whose id is \<open>i\<close>, at an address already handed out.
\<close>

definition registry_ok :: "shell \<Rightarrow> bool" where
  "registry_ok s =
     (\<forall>i a. jid2job s i = Some a \<longrightarrow> a < brk s \<and> (\<exists>j. heap s a = Some j \<and> jid j = int i))"






subsection \<open>Concrete shells and command lines\<close>

text \<open>A job record of zeroed memory, and an environment where every call succeeds except
  the launch of \<^verbatim>\<open>nosuchprog\<close>; the pid of a launch is 1000 plus the moment of the call.\<close>

definition blank_job :: job where
  "blank_job =
     \<lparr>pipe = \<lparr>commands = [], iored_input = None, iored_output = None,
              append_to_output = False, bg_job = False\<rparr>,
      jid = 0, status = FOREGROUND, num_processes_alive = 0, saved_tty_state = 0,
      termStateIsSaved = False, pgid = 0, pids = None\<rparr>"

definition world_lp64 :: world where
  "world_lp64 =
     \<lparr>sizeof_pids = 8, fresh_job = (\<lambda>a. blank_job), pids_memory = (\<lambda>a i. 0),
      malloc_pids_ok = (\<lambda>t. True), pipe2_ret = (\<lambda>t. Some (3, 4)),
      spawnp_ret = (\<lambda>t name. if name = ''nosuchprog'' then None else Some (1000 + int t)),
      killpg_ok = (\<lambda>t. True), tcgetattr_ret = (\<lambda>t. 7), chdir_ret = (\<lambda>t path. None),
      getenv_HOME = Some ''/root'', history_before = True\<rparr>"

text \<open>The same environment, but every \<^verbatim>\<open>killpg\<close> fails.\<close>

definition world_killpg_fails :: world where
  "world_killpg_fails = world_lp64\<lparr>killpg_ok := (\<lambda>t. False)\<rparr>"


definition simple_command :: "string list \<Rightarrow> ast_command" where
  "simple_command av = \<lparr>argv = av, dup_stderr_to_stdout = False\<rparr>"

definition simple_pipeline :: "string list list \<Rightarrow> bool \<Rightarrow> ast_pipeline" where
  "simple_pipeline avs bg =
     \<lparr>commands = map simple_command avs, iored_input = None, iored_output = None,
      append_to_output = False, bg_job = bg\<rparr>"

text \<open>The shell after the initialisation of \<^verbatim>\<open>main\<close>: no job, no history.\<close>

definition shell_init :: shell where
  "shell_init =
     \<lparr>heap = (\<lambda>a. None), brk = 0, job_list = [], jid2job = (\<lambda>i. None), history = [],
      sigchld_blocked = False, waits = [], trace = []\<rparr>"

text \<open>A background pipeline of nine stages.\<close>

definition nine_stages :: ast_pipeline where
  "nine_stages =
     simple_pipeline [[''p1''], [''p2''], [''p3''], [''p4''], [''p5''], [''p6''], [''p7''],
                      [''p8''], [''p9'']] True"

text \<open>The command line \<^verbatim>\<open>sleep 100 &\<close>.\<close>

definition sleep_bg :: ast_pipeline where
  "sleep_bg = simple_pipeline [[''sleep'', ''100'']] True"

text \<open>
  \<^verbatim>\<open>sleep 100\<close> as job 1, stopped from the keyboard while in the foreground (terminal modes
  7 saved), and the shell inside \<^verbatim>\<open>run_command\<close> with SIGCHLD blocked.
\<close>

definition sleep_fg :: ast_pipeline where
  "sleep_fg = simple_pipeline [[''sleep'', ''100'']] False"

definition stopped_job :: job where
  "stopped_job =
     blank_job\<lparr>pipe := sleep_fg, jid := 1, status := STOPPED, num_processes_alive := 1,
               saved_tty_state := 7, termStateIsSaved := True, pgid := 100,
               pids := Some [100]\<rparr>"

definition shell_stopped :: shell where
  "shell_stopped =
     shell_init\<lparr>heap := [0 \<mapsto> stopped_job], brk := 1, job_list := [0], jid2job := [1 \<mapsto> 0],
                sigchld_blocked := True\<rparr>"

text \<open>The same shell when the process of job 1 is about to be reported as exited.\<close>

definition shell_stopped_exiting :: shell where
  "shell_stopped_exiting = shell_stopped\<lparr>waits := [WaitChild 100 (WEXITED 0)]\<rparr>"

text \<open>A shell whose table has no free slot: job \<open>i\<close> at address \<open>i\<close>, for every id.\<close>

definition shell_full :: shell where
  "shell_full =
     shell_init\<lparr>heap := (\<lambda>a. if 1 \<le> a \<and> a < MAXJOBS
                              then Some (stopped_job\<lparr>jid := int a, pgid := int a,
                                                     pids := Some [int a]\<rparr>)
                              else None),
                brk := MAXJOBS, job_list := [1..<MAXJOBS],
                jid2job := (\<lambda>i. if 1 \<le> i \<and> i < MAXJOBS then Some i else None)\<rparr>"

text \<open>
  Command lines: \<^verbatim>\<open>sleep 5 | cat &\<close>, \<^verbatim>\<open>nosuchprog\<close>, \<^verbatim>\<open>!-5\<close>, \<^verbatim>\<open>!5\<close>, \<^verbatim>\<open>jobs\<close>,
  \<^verbatim>\<open>fg 1\<close>.
\<close>

definition two_stages_bg :: ast_pipeline where
  "two_stages_bg = simple_pipeline [[''sleep'', ''5''], [''cat'']] True"


definition nosuchprog :: ast_pipeline where
  "nosuchprog = simple_pipeline [[''nosuchprog'']] False"

definition recall_minus5 :: ast_pipeline where
  "recall_minus5 = simple_pipeline [[''!-5'']] False"

definition recall_5 :: ast_pipeline where
  "recall_5 = simple_pipeline [[''!5'']] False"




section \<open>Properties\<close>

subsection \<open>Evaluation rules and facts about the loops\<close>

lemmas example_defs = world_lp64_def shell_init_def blank_job_def simple_command_def
  simple_pipeline_def

lemmas atoi_defs = atoi_def int_of_long_def strtol_def decimal_value_def

lemmas reconciler_defs = handle_child_status_def scan_pids.simps pids_at_def child_matched_def
  set_job_def emit_def now_def

text \<open>The loop of \<^verbatim>\<open>add_job\<close> finds no slot exactly when every id from \<open>i\<close> on is taken.\<close>

lemma find_slot_None_iff:
  "find_slot tbl i = None \<longleftrightarrow> (\<forall>k. i \<le> k \<and> k < MAXJOBS \<longrightarrow> tbl k \<noteq> None)"
proof (induction tbl i rule: find_slot.induct)
  case (1 tbl i)
  show ?case
  proof (cases "i < MAXJOBS")
    case False
    then show ?thesis by (auto simp: find_slot.simps)
  next
    case True
    show ?thesis
    proof (cases "tbl i = None")
      case True
      with \<open>i < MAXJOBS\<close> show ?thesis by (auto simp: find_slot.simps)
    next
      case False
      with True 1 have "find_slot tbl i = None \<longleftrightarrow>
          (\<forall>k. Suc i \<le> k \<and> k < MAXJOBS \<longrightarrow> tbl k \<noteq> None)"
        by (auto simp: find_slot.simps [of tbl i])
      also have "\<dots> \<longleftrightarrow> (\<forall>k. i \<le> k \<and> k < MAXJOBS \<longrightarrow> tbl k \<noteq> None)"
        using False by (metis Suc_leI le_neq_implies_less Suc_leD)
      finally show ?thesis .
    qed
  qed
qed

lemma add_job_no_slot:
  assumes "find_slot (jid2job s) 1 = None"
  shows "add_job w s p =
           Inl (Abort,
                s\<lparr>heap := (heap s)(brk s \<mapsto> (fresh_job w (brk s))
                              \<lparr>pipe := p, num_processes_alive := 0, termStateIsSaved := False\<rparr>),
                  brk := Suc (brk s), job_list := job_list s @ [brk s],
                  trace := trace s @ [Stderr (''Maximum number of jobs exceeded'' @ NL)]\<rparr>)"
  using assms by (simp add: add_job_def Let_def emit_def)

lemmas executor_defs = run_command_def add_job_def find_slot.simps MAXJOBS_def builtin_def
  launch_def file_actions_def close_ends_def spawn_failed_def delete_job_def
  wait_for_job_def signal_block_def signal_unblock_def print_bg_def bg_line_def
  string_of_int_def string_of_nat.simps char_at_def set_job_def emit_def now_def Let_def

lemmas recall_defs = history_recall_def history_size_def recall_entry_def history_line_def
  isdigit_def digit_val_def atoi_defs isspace_def

text \<open>The sweep of \<^verbatim>\<open>main\<close> does nothing from an index on where the table is empty.\<close>

lemma reap_from_none:
  "(\<forall>k. i \<le> k \<and> k < MAXJOBS \<longrightarrow> jid2job s k = None) \<Longrightarrow> reap_from i s = Inr s"
proof (induction i s rule: reap_from.induct)
  case (1 i s)
  show ?case
  proof (cases "i < MAXJOBS")
    case False
    then show ?thesis by (simp add: reap_from.simps)
  next
    case True
    with "1.prems" have none: "get_job_from_jid s (int i) = None"
      by (simp add: get_job_from_jid_def)
    from "1.prems" have "\<forall>k. Suc i \<le> k \<and> k < MAXJOBS \<longrightarrow> jid2job s k = None"
      by simp
    with "1.IH"(1) [OF True none] have "reap_from (Suc i) s = Inr s" .
    with True none show ?thesis
      by (simp add: reap_from.simps [of i s])
  qed
qed

text \<open>The waiter's loop does not start for a job that is not in the foreground.\<close>

lemma wait_loop_not_foreground:
  assumes "heap s a = Some j" and "\<not> (status j = FOREGROUND \<and> num_processes_alive j > 0)"
  shows "wait_loop w a rs s = Inr s"
  using assms by (cases rs) auto



lemma argv1_simple_command: "argv1 (simple_command [x, y]) = Some y"
  by (simp add: argv1_def simple_command_def)

lemma job_1_of_shell_stopped:
  "get_job_from_jid shell_stopped (atoi ''1'') = Some 0"
  "heap shell_stopped 0 = Some stopped_job"
  by (simp_all add: get_job_from_jid_def MAXJOBS_def shell_stopped_def shell_init_def atoi_defs
      isspace_def isdigit_def digit_val_def)



























lemma add_job_slot:
  assumes "find_slot (jid2job s) 1 = Some k"
  shows "add_job w s p =
           Inr (brk s,
                s\<lparr>heap := (heap s)(brk s \<mapsto> (fresh_job w (brk s))
                              \<lparr>pipe := p, num_processes_alive := 0, termStateIsSaved := False,
                               jid := int k\<rparr>),
                  brk := Suc (brk s), job_list := job_list s @ [brk s],
                  jid2job := (jid2job s)(k \<mapsto> brk s)\<rparr>)"
  using assms by (simp add: add_job_def Let_def)











text \<open>\<open>registry_ok\<close> holds initially and is kept by \<^verbatim>\<open>add_job\<close> and \<^verbatim>\<open>delete_job\<close>.\<close>

lemma registry_ok_shell_init: "registry_ok shell_init"
  by (simp add: registry_ok_def shell_init_def)

lemma add_job_registry_ok:
  assumes "registry_ok s" and "add_job w s p = Inr (a, s')"
  shows "registry_ok s'"
proof -
  from assms(2) obtain k where k: "find_slot (jid2job s) 1 = Some k"
    by (auto simp: add_job_def Let_def split: option.splits)
  from add_job_slot [OF k, of w p] assms(2) have
    "s' = s\<lparr>heap := (heap s)(brk s \<mapsto> (fresh_job w (brk s))
                  \<lparr>pipe := p, num_processes_alive := 0, termStateIsSaved := False,
                   jid := int k\<rparr>),
             brk := Suc (brk s), job_list := job_list s @ [brk s],
             jid2job := (jid2job s)(k \<mapsto> brk s)\<rparr>"
    by simp
  with assms(1) show ?thesis
    by (auto simp: registry_ok_def less_Suc_eq)
qed





lemmas shell_stopped_defs = shell_stopped_exiting_def shell_stopped_def stopped_job_def
  sleep_fg_def example_defs

lemmas printing_defs = print_job_def job_line_def print_cmdline_def string_of_int_def
  string_of_nat.simps

lemma job_1_of_shell_stopped_exiting:
  "get_job_from_jid shell_stopped_exiting (atoi ''1'') = Some 0"
  "heap shell_stopped_exiting 0 = Some stopped_job"
  by (simp_all add: shell_stopped_exiting_def get_job_from_jid_def MAXJOBS_def shell_stopped_def
      shell_init_def atoi_defs isspace_def isdigit_def digit_val_def)










subsection \<open>C1: the reconciler scans a pointer's size, not the stage count\<close>

text \<open>
  C1 says that the reconciler scans exactly the stage count of the job's process ids, so
  that the live count equals the number of processes not yet reported exited. The code
  scans \<^verbatim>\<open>sizeof(job->pids)\<close> cells, 8 on LP64. Run from the initial shell, the background
  pipeline of nine stages becomes a job with nine pids and \<open>num_processes_alive\<close> 9. The
  exit of its ninth process, pid 1049, is then looked for in cells 0 to 7 only: the
  reconciler returns the shell unchanged, the count still 9 with eight processes left.
\<close>

theorem handle_child_status_misses_ninth_stage:
  "halted (run_command world_lp64 shell_init [nine_stages]) = None
   \<and> map_option pids (heap (final (run_command world_lp64 shell_init [nine_stages])) 0)
       = Some (Some [1003, 1008, 1014, 1020, 1026, 1032, 1038, 1044, 1049])
   \<and> map_option num_processes_alive
         (heap (final (run_command world_lp64 shell_init [nine_stages])) 0) = Some 9
   \<and> handle_child_status world_lp64 (final (run_command world_lp64 shell_init [nine_stages]))
         1049 (WEXITED 0)
       = Inr (final (run_command world_lp64 shell_init [nine_stages]))"
  by (simp add: nine_stages_def example_defs executor_defs reconciler_defs halted_def final_def)

subsection \<open>C2: an exhausted job table aborts the shell\<close>

text \<open>
  C2 says that job creation with no id left fails with a recoverable error and the shell
  goes on. At the full table of \<open>shell_full\<close> the code ends in \<^verbatim>\<open>abort()\<close>.
\<close>

theorem add_job_full_table_aborts:
  "halted (add_job world_lp64 shell_full sleep_bg) = Some Abort"
proof -
  have "find_slot (jid2job shell_full) 1 = None"
    by (simp add: find_slot_None_iff shell_full_def shell_init_def)
  then show ?thesis
    by (simp add: add_job_no_slot halted_def)
qed

text \<open>
  C2 as amended: when every id from 1 to \<open>MAXJOBS - 1\<close> is taken, \<^verbatim>\<open>add_job\<close> links the
  new record into the job list, prints \<^verbatim>\<open>Maximum number of jobs exceeded\<close> on the error
  stream and aborts; so does \<^verbatim>\<open>run_command\<close> for any command line, whatever its first
  command is.
\<close>

theorem add_job_exhausted_aborts:
  assumes "\<forall>i. 1 \<le> i \<and> i < MAXJOBS \<longrightarrow> jid2job s i \<noteq> None"
  shows "add_job w s p =
           Inl (Abort,
                s\<lparr>heap := (heap s)(brk s \<mapsto> (fresh_job w (brk s))
                              \<lparr>pipe := p, num_processes_alive := 0, termStateIsSaved := False\<rparr>),
                  brk := Suc (brk s), job_list := job_list s @ [brk s],
                  trace := trace s @ [Stderr (''Maximum number of jobs exceeded'' @ NL)]\<rparr>)
         \<and> halted (run_command w s (p # ps)) = Some Abort"
proof -
  have none: "find_slot (jid2job s) 1 = None"
    using assms by (simp add: find_slot_None_iff)
  have "find_slot (jid2job (signal_block (emit TermstateSample s))) 1 = None"
    using none by (simp add: signal_block_def emit_def)
  then have "halted (run_command w s (p # ps)) = Some Abort"
    by (simp add: run_command_def add_job_no_slot halted_def)
  with none show ?thesis
    by (simp add: add_job_no_slot)
qed

text \<open>The amended C2 at the full table: the shell aborts with the one message.\<close>

theorem add_job_exhausted_aborts_witness:
  "halted (run_command world_lp64 shell_full [sleep_bg]) = Some Abort
   \<and> stderr_lines (trace (final (run_command world_lp64 shell_full [sleep_bg])))
       = [''Maximum number of jobs exceeded'' @ NL]"
proof -
  have full: "\<forall>i. 1 \<le> i \<and> i < MAXJOBS \<longrightarrow> jid2job shell_full i \<noteq> None"
    by (simp add: shell_full_def shell_init_def)
  have "find_slot (jid2job (signal_block (emit TermstateSample shell_full))) 1 = None"
    using full by (simp add: find_slot_None_iff signal_block_def emit_def)
  then have "stderr_lines (trace (final (run_command world_lp64 shell_full [sleep_bg])))
       = [''Maximum number of jobs exceeded'' @ NL]"
    by (simp add: run_command_def add_job_no_slot final_def signal_block_def emit_def
        shell_full_def shell_init_def)
  with add_job_exhausted_aborts [OF full, of world_lp64 sleep_bg "[]"] show ?thesis
    by simp
qed

subsection \<open>C3: one announcement per stage\<close>

text \<open>
  C3 says that a background pipeline is announced with \<^verbatim>\<open>[id] process_group\<close> exactly
  once, after its last stage is launched. The call of \<^verbatim>\<open>print_bg\<close> stands inside the loop
  over the stages (lines 686-692). For \<^verbatim>\<open>sleep 5 | cat &\<close> from the initial shell the line
  \<^verbatim>\<open>[1] 1003\<close> is printed twice, the first time before the second stage is launched.
\<close>

theorem run_command_announces_each_stage:
  "trace (final (run_command world_lp64 shell_init [two_stages_bg])) =
     [TermstateSample, TermstateSample, Pipe2,
      Spawnp ''sleep'' [''sleep'', ''5''] [AddDup2 4 1] 0 False, Close 4,
      Stdout (''[1] 1003'' @ NL), TermstateSample,
      Spawnp ''cat'' [''cat''] [AddDup2 3 0] 1003 False, Close 3, Close 3,
      Stdout (''[1] 1003'' @ NL), GiveTerminalBackToShell, GiveTerminalBackToShell]"
  by (simp add: two_stages_bg_def example_defs executor_defs final_def)

subsection \<open>C4: \<^verbatim>\<open>bg\<close> prints the job line\<close>

text \<open>
  C4 says that \<^verbatim>\<open>bg\<close> of a stopped job prints the background announcement, the
  \<^verbatim>\<open>[id] process_group\<close> form. The code calls \<^verbatim>\<open>print_job\<close>, not \<^verbatim>\<open>print_bg\<close>: for the
  stopped job 1 of \<open>shell_stopped\<close> the one line printed is the job line with the label
  \<^verbatim>\<open>Running\<close>, and the line \<^verbatim>\<open>[1] 100\<close> is not printed.
\<close>

theorem bg_builtin_prints_job_line:
  "stdout_lines (trace (final (bg_builtin world_lp64 shell_stopped (simple_command [''bg'', ''1'']))))
     = [''[1]'' @ TAB @ ''Running'' @ TAB @ TAB @ ''(sleep 100)'' @ NL]
   \<and> bg_line stopped_job = ''[1] 100'' @ NL
   \<and> bg_line stopped_job \<notin> set (stdout_lines (trace (final
         (bg_builtin world_lp64 shell_stopped (simple_command [''bg'', ''1''])))))"
  by (simp add: bg_builtin_def argv1_def get_job_from_jid_def MAXJOBS_def shell_stopped_def
      stopped_job_def sleep_fg_def example_defs atoi_defs isspace_def isdigit_def digit_val_def
      print_job_def job_line_def print_cmdline_def bg_line_def string_of_int_def
      string_of_nat.simps wait_for_job_def signal_unblock_def set_job_def emit_def now_def
      final_def Let_def)

text \<open>
  C4 as amended: for \<^verbatim>\<open>bg <id>\<close> where the id exists and the job is \<open>STOPPED\<close>, called
  with SIGCHLD blocked as the waiter asserts, the builtin sets the status to
  \<open>BACKGROUND\<close>, prints the job line of \<^verbatim>\<open>print_job\<close> (id, the label \<^verbatim>\<open>Running\<close>, the
  command line) and sends SIGCONT to the process group. When \<^verbatim>\<open>killpg\<close> succeeds the
  waiter is entered and consumes no wait result (\<open>waits\<close> is as before), hands the
  terminal back to the shell and unblocks SIGCHLD; when \<^verbatim>\<open>killpg\<close> fails the shell ends
  with a fatal error.
\<close>

theorem bg_builtin_stopped:
  assumes "argv1 cmd = Some arg"
    and "get_job_from_jid s (atoi arg) = Some a"
    and "heap s a = Some j"
    and "status j = STOPPED"
    and "sigchld_blocked s"
  shows "bg_builtin w s cmd =
           (if killpg_ok w (Suc (now s)) then
              Inr (s\<lparr>heap := (heap s)(a \<mapsto> j\<lparr>status := BACKGROUND\<rparr>),
                     sigchld_blocked := False,
                     trace := trace s @ [Stdout (job_line (j\<lparr>status := BACKGROUND\<rparr>)),
                                         Killpg (pgid j) SIGCONT, GiveTerminalBackToShell]\<rparr>)
            else
              Inl (FatalError,
                   s\<lparr>heap := (heap s)(a \<mapsto> j\<lparr>status := BACKGROUND\<rparr>),
                     trace := trace s @ [Stdout (job_line (j\<lparr>status := BACKGROUND\<rparr>)),
                                         Killpg (pgid j) SIGCONT,
                                         Stderr (''kill pgid failed '' @ string_of_int (pgid j))]\<rparr>))"
proof -
  let ?j1 = "j\<lparr>status := BACKGROUND\<rparr>"
  let ?s3 = "emit (Killpg (pgid ?j1) SIGCONT) (print_job ?j1 (set_job a ?j1 s))"
  have "heap ?s3 a = Some ?j1"
    by (simp add: emit_def print_job_def set_job_def)
  then have "wait_loop w a (waits ?s3) ?s3 = Inr ?s3"
    by (rule wait_loop_not_foreground) simp
  moreover have "sigchld_blocked ?s3"
    using assms(5) by (simp add: emit_def print_job_def set_job_def)
  ultimately have "wait_for_job w ?s3 a = Inr (signal_unblock (emit GiveTerminalBackToShell ?s3))"
    by (simp add: wait_for_job_def)
  with assms show ?thesis
    by (simp add: bg_builtin_def Let_def emit_def print_job_def set_job_def signal_unblock_def
        now_def)
qed

text \<open>The amended C4 for \<^verbatim>\<open>bg 1\<close> in \<open>shell_stopped\<close>.\<close>

theorem bg_builtin_stopped_witness:
  "bg_builtin world_lp64 shell_stopped (simple_command [''bg'', ''1'']) =
     Inr (shell_stopped\<lparr>heap := (heap shell_stopped)(0 \<mapsto> stopped_job\<lparr>status := BACKGROUND\<rparr>),
            sigchld_blocked := False,
            trace := [Stdout (job_line (stopped_job\<lparr>status := BACKGROUND\<rparr>)),
                      Killpg 100 SIGCONT, GiveTerminalBackToShell]\<rparr>)"
proof -
  have 4: "status stopped_job = STOPPED"
    by (simp add: stopped_job_def)
  have 5: "sigchld_blocked shell_stopped"
    by (simp add: shell_stopped_def)
  show ?thesis
    using bg_builtin_stopped [OF argv1_simple_command job_1_of_shell_stopped 4 5, of world_lp64]
    by (simp add: world_lp64_def stopped_job_def shell_stopped_def shell_init_def)
qed

subsection \<open>C5: an unknown pid is dropped without a word\<close>

text \<open>
  C5 says that an observation whose pid no live job holds is reported as a protocol
  violation, never dropped. After \<^verbatim>\<open>sleep 100 &\<close> from the initial shell the one job holds
  pid 1002. The observation that pid 999 exited returns the shell as it was: nothing is
  printed, nothing changes. The message of line 251 stands behind a test that is never
  true.
\<close>

theorem handle_child_status_drops_unknown_pid:
  "halted (run_command world_lp64 shell_init [sleep_bg]) = None
   \<and> map_option pids (heap (final (run_command world_lp64 shell_init [sleep_bg])) 0)
       = Some (Some [1002])
   \<and> handle_child_status world_lp64 (final (run_command world_lp64 shell_init [sleep_bg]))
         999 (WEXITED 0)
       = Inr (final (run_command world_lp64 shell_init [sleep_bg]))"
  by (simp add: sleep_bg_def example_defs executor_defs reconciler_defs halted_def final_def)

subsection \<open>C6: a failed launch leaves the freed job in the list\<close>

text \<open>
  C6 says that on a launch failure the job is removed from the registry, so that nothing
  live, the iteration list included, refers to it. The failure path (lines 659-665)
  reports, calls \<^verbatim>\<open>delete_job\<close> and gives the terminal back, but \<^verbatim>\<open>delete_job\<close> does not
  unlink the record, and nothing else does: the sweep of \<^verbatim>\<open>main\<close>, which unlinks before
  it deletes, goes by the table and no longer finds the job. After the whole prompt cycle
  of \<^verbatim>\<open>nosuchprog\<close> the list still holds address 0, which is freed, and the next child
  status makes \<^verbatim>\<open>handle_child_status\<close> read the freed record.
\<close>

theorem spawn_failure_leaves_dangling_list_entry:
  "halted (prompt_cycle world_lp64 shell_init ''nosuchprog'' (Some [nosuchprog])) = None
   \<and> job_list (final (prompt_cycle world_lp64 shell_init ''nosuchprog'' (Some [nosuchprog]))) = [0]
   \<and> heap (final (prompt_cycle world_lp64 shell_init ''nosuchprog'' (Some [nosuchprog]))) 0 = None
   \<and> stderr_lines (trace (final (prompt_cycle world_lp64 shell_init ''nosuchprog''
         (Some [nosuchprog])))) = [''posix_spawnp failed'']
   \<and> halted (handle_child_status world_lp64
         (final (prompt_cycle world_lp64 shell_init ''nosuchprog'' (Some [nosuchprog])))
         1000 (WEXITED 0)) = Some Undefined"
proof -
  let ?s = "\<lparr>heap = (\<lambda>a. None), brk = Suc 0, job_list = [0], jid2job = (\<lambda>i. None),
             history = [''nosuchprog''], sigchld_blocked = False, waits = [],
             trace = [TermstateSample, TermstateSample,
                      Spawnp ''nosuchprog'' [''nosuchprog''] [] 0 True,
                      Perror ''posix_spawnp failed'', GiveTerminalBackToShell]\<rparr>"
  have run: "run_command world_lp64
               ((signal_unblock shell_init)\<lparr>history := history shell_init @ [''nosuchprog'']\<rparr>)
               [nosuchprog] = Inr ?s"
    by (simp add: nosuchprog_def example_defs executor_defs fun_eq_iff)
  have "reap_from 1 ?s = Inr ?s"
    by (rule reap_from_none) simp
  with run have cyc:
    "prompt_cycle world_lp64 shell_init ''nosuchprog'' (Some [nosuchprog]) = Inr ?s"
    by (simp add: prompt_cycle_def Let_def)
  show ?thesis
    unfolding cyc
    by (simp add: halted_def final_def handle_child_status_def scan_pids.simps world_lp64_def)
qed

subsection \<open>C7: \<^verbatim>\<open>fg\<close> waits only when the continue signal was sent\<close>

text \<open>
  C7 says that for every \<^verbatim>\<open>fg <id>\<close> with an existing id the builtin, after the terminal
  hand-over, prints the job, sends SIGCONT and invokes the foreground waiter. When
  \<^verbatim>\<open>killpg\<close> fails (lines 327-331) the waiter is not invoked: for \<^verbatim>\<open>fg 1\<close> on the stopped
  job 1, with the exit of its process waiting to be reported, the shell ends in
  \<^verbatim>\<open>utils_fatal_error\<close>; the wait result is still pending, SIGCHLD still blocked and the
  terminal still with the job.
\<close>

theorem fg_builtin_killpg_failure_skips_waiter:
  "halted (fg_builtin world_killpg_fails shell_stopped_exiting (simple_command [''fg'', ''1'']))
     = Some FatalError
   \<and> trace (final (fg_builtin world_killpg_fails shell_stopped_exiting
         (simple_command [''fg'', ''1''])))
       = [GiveTerminalTo (Some 7) 100,
          Stdout (''[1]'' @ TAB @ ''Foreground'' @ TAB @ TAB @ ''(sleep 100)'' @ NL),
          Killpg 100 SIGCONT, Stderr ''kill pgid failed 100'']
   \<and> waits (final (fg_builtin world_killpg_fails shell_stopped_exiting
         (simple_command [''fg'', ''1'']))) = [WaitChild 100 (WEXITED 0)]
   \<and> sigchld_blocked (final (fg_builtin world_killpg_fails shell_stopped_exiting
         (simple_command [''fg'', ''1''])))"
  by (simp add: fg_builtin_def argv1_def get_job_from_jid_def MAXJOBS_def world_killpg_fails_def
      shell_stopped_defs atoi_defs isspace_def isdigit_def digit_val_def printing_defs
      set_job_def emit_def now_def halted_def final_def Let_def)

text \<open>
  C7 as amended: for every \<^verbatim>\<open>fg <id>\<close> where the id exists, the job becomes
  \<open>FOREGROUND\<close>; the terminal is given to the job's process group with the saved snapshot
  when the job holds one, without a snapshot otherwise, and the snapshot flag is cleared;
  then the job is printed and \<^verbatim>\<open>killpg\<close> is called with SIGCONT for the process group, in
  that order. When that call succeeds, the result of the builtin is the result of the
  foreground waiter on that state; when it fails, the shell ends with a fatal error and
  the waiter is not invoked.
\<close>

theorem fg_builtin_existing_job:
  assumes "argv1 cmd = Some arg"
    and "get_job_from_jid s (atoi arg) = Some a"
    and "heap s a = Some j"
  shows "fg_builtin w s cmd =
           (let j' = j\<lparr>status := FOREGROUND, termStateIsSaved := False\<rparr>;
                s' = s\<lparr>heap := (heap s)(a \<mapsto> j'),
                       trace := trace s @
                         [GiveTerminalTo
                            (if termStateIsSaved j then Some (saved_tty_state j) else None)
                            (pgid j),
                          Stdout (job_line j'),
                          Killpg (pgid j) SIGCONT]\<rparr>
            in if killpg_ok w (now s + 2) then wait_for_job w s' a
               else Inl (FatalError,
                         emit (Stderr (''kill pgid failed '' @ string_of_int (pgid j))) s'))"
  using assms
  by (simp add: fg_builtin_def Let_def emit_def print_job_def set_job_def now_def)

text \<open>
  The amended C7 for \<^verbatim>\<open>fg 1\<close> on the stopped job 1, which holds the snapshot 7, when
  \<^verbatim>\<open>killpg\<close> succeeds: the snapshot goes to group 100 and is cleared, the job line is
  printed with the label \<^verbatim>\<open>Foreground\<close>, SIGCONT is sent, and the waiter consumes the exit
  of process 100 and hands the terminal back.
\<close>

theorem fg_builtin_existing_job_witness:
  "halted (fg_builtin world_lp64 shell_stopped_exiting (simple_command [''fg'', ''1''])) = None
   \<and> trace (final (fg_builtin world_lp64 shell_stopped_exiting (simple_command [''fg'', ''1''])))
       = [GiveTerminalTo (Some 7) 100,
          Stdout (''[1]'' @ TAB @ ''Foreground'' @ TAB @ TAB @ ''(sleep 100)'' @ NL),
          Killpg 100 SIGCONT, TermstateSample, GiveTerminalBackToShell,
          GiveTerminalBackToShell]
   \<and> waits (final (fg_builtin world_lp64 shell_stopped_exiting
         (simple_command [''fg'', ''1'']))) = []
   \<and> map_option termStateIsSaved
         (heap (final (fg_builtin world_lp64 shell_stopped_exiting
            (simple_command [''fg'', ''1'']))) 0) = Some False"
  unfolding fg_builtin_existing_job
              [OF argv1_simple_command job_1_of_shell_stopped_exiting, of world_lp64]
  by (simp add: world_lp64_def shell_stopped_exiting_def shell_stopped_def stopped_job_def
      sleep_fg_def shell_init_def simple_command_def simple_pipeline_def blank_job_def
      wait_for_job_def reconciler_defs printing_defs signal_unblock_def halted_def final_def
      Let_def)

subsection \<open>C8: \<^verbatim>\<open>!-n\<close> has no range check\<close>

text \<open>
  C8 says that a recall \<^verbatim>\<open>!n\<close> or \<^verbatim>\<open>!-n\<close> out of range fails with an error and no side
  effect. The \<^verbatim>\<open>!n\<close> branch tests its index (line 576); the \<^verbatim>\<open>!-n\<close> branch does not, and
  reads \<^verbatim>\<open>cmd_history[size - n - 2]\<close> whatever the index is (line 553). With \<^verbatim>\<open>!-5\<close> as the
  first line typed the index is -5: the read is outside the array and nothing is
  reported. The same line with \<^verbatim>\<open>!5\<close> prints the error and returns.
\<close>

theorem recall_minus_n_reads_out_of_range:
  "halted (prompt_cycle world_lp64 shell_init ''!-5'' (Some [recall_minus5])) = Some Undefined
   \<and> stderr_lines (trace (final (prompt_cycle world_lp64 shell_init ''!-5''
         (Some [recall_minus5])))) = []
   \<and> halted (run_command world_lp64 (shell_init\<lparr>history := [''!5'']\<rparr>) [recall_5]) = None
   \<and> stderr_lines (trace (final (run_command world_lp64 (shell_init\<lparr>history := [''!5'']\<rparr>)
         [recall_5]))) = [''Improper n-value for !n cmd'' @ NL]"
  by (simp add: prompt_cycle_def recall_minus5_def recall_5_def example_defs executor_defs
      recall_defs halted_def final_def)

subsection \<open>C9: \<^verbatim>\<open>kill\<close> marks the job stopped\<close>



subsection \<open>C10: only a pipeline that is reached gets a job\<close>




end
